theory Spec2Isabelle
  imports Complex_Main "HOL-Library.AList"
begin

section \<open>Python values, errors and the outside world\<close>

text \<open>
  The values that cross the client's interface: arguments such as \<open>per_page\<close>, request
  bodies, query parameters and decoded JSON. A Python \<open>dict\<close> is an association list
  (insertion order kept, \<open>AList.update\<close> is \<open>d[k] = v\<close>, \<open>map_of\<close> is lookup).
\<close>

datatype pyval =
    PyNone
  | PyBool bool
  | PyInt int
  | PyFloat real
  | PyStr string
  | PyList "pyval list"
  | PyDict "(string \<times> pyval) list"

type_synonym pydict = "(string \<times> pyval) list"

text \<open>
  Every exception class the modelled code raises. \<open>TimeoutException\<close> is
  \<open>httpx.TimeoutException\<close>; \<open>OSError\<close> is a failing \<open>open\<close>; \<open>TypeError\<close> and
  \<open>AttributeError\<close> are the interpreter's own, raised by an item assignment or an
  \<open>in\<close> test on a value that does not support it and by \<open>None.json()\<close>;
  \<open>UnicodeDecodeError\<close> and \<open>RecursionError\<close> can come out of \<open>resp.json()\<close>.
\<close>

datatype error =
    AuthenticationError string
  | InvalidArg string
  | UnExpectedError string
  | TimeoutException string
  | FileNotFoundError string
  | ValueError string
  | OSError string
  | TypeError
  | AttributeError
  | UnicodeDecodeError string
  | RecursionError

text \<open>
  One call of \<open>httpx.AsyncClient(headers, timeout).request(method, url, json, params)\<close>
  is described by the values handed to httpx.
\<close>

record request =
  rq_method :: string
  rq_url :: string
  rq_headers :: "(string \<times> string) list"
  rq_timeout :: int
  rq_json :: "pyval option"
  rq_params :: "pydict option"

text \<open>
  What \<open>resp.json()\<close> can do: return the decoded value, raise
  \<open>json.decoder.JSONDecodeError\<close> (an empty or malformed text), or raise another
  exception, which the \<open>except\<close> clause of \<open>_async_request\<close> does not name: a
  \<open>UnicodeDecodeError\<close> for bytes that are not valid text, a \<open>RecursionError\<close> for a
  nesting too deep, a plain \<open>ValueError\<close> for an integer literal too long.
\<close>

datatype decode_exception = UnicodeDecode string | RecursionLimit | PlainValueError string

fun raised :: "decode_exception \<Rightarrow> error" where
  "raised (UnicodeDecode m) = UnicodeDecodeError m"
| "raised RecursionLimit = RecursionError"
| "raised (PlainValueError m) = ValueError m"

datatype json_outcome = Json pyval | JSONDecodeError | JsonRaises decode_exception

text \<open>What the code reads from a response: \<open>resp.status_code\<close> and \<open>resp.json()\<close>.\<close>

record response =
  status_code :: int
  json_body :: json_outcome

text \<open>
  The outcome of one network attempt: a response, \<open>httpx.TimeoutException\<close> or any other
  \<open>Exception\<close>; both exceptions carry their \<open>str()\<close> text. The transport gives the
  outcome of the \<open>k\<close>-th attempt made so far (counted from 0) for the request sent.
\<close>

datatype outcome = Response response | TimeoutExc string | OtherExc string

type_synonym transport = "nat \<Rightarrow> request \<Rightarrow> outcome"

text \<open>
  The observable effects, in the order they happen: a network attempt and
  \<open>asyncio.sleep(t)\<close>. Every operation takes the trace so far and returns it extended.
\<close>

datatype event = Attempt request | Sleep real

fun is_attempt :: "event \<Rightarrow> bool" where
  "is_attempt (Attempt rq) = True"
| "is_attempt (Sleep t) = False"

definition attempts :: "event list \<Rightarrow> nat" where
  "attempts w = length (filter is_attempt w)"

text \<open>The files on disk: a path that \<open>os.path.isfile\<close> accepts maps to the file's text.\<close>

type_synonym filesystem = "string \<Rightarrow> string option"

section \<open>utils.py and the package's ambient configuration\<close>

text \<open>
  \<open>__init__.py\<close> holds the module variables \<open>auth_token\<close> and \<open>auth_token_path\<close> (read
  from \<open>AUTH_TOKEN\<close> and \<open>AUTH_TOKEN_PATH\<close>); \<open>base.py\<close> reads \<open>GITHUB_API_VERSION\<close>.
\<close>

record ambient =
  module_auth_token :: "string option"
  module_auth_token_path :: "string option"
  env_GITHUB_API_VERSION :: "string option"

text \<open>Truth value of an optional string: \<open>None\<close> and \<open>""\<close> are false.\<close>

fun truthy :: "string option \<Rightarrow> bool" where
  "truthy None = False"
| "truthy (Some s) = (s \<noteq> [])"

text \<open>
  \<open>str.isspace\<close> on the code points below 256, and \<open>str.strip()\<close>.
\<close>

definition is_space :: "char \<Rightarrow> bool" where
  "is_space ch = (of_char ch \<in>
     set [9, 10, 11, 12, 13, 28, 29, 30, 31, 32, 133, 160 :: nat])"

definition strip :: "string \<Rightarrow> string" where
  "strip s = rev (dropWhile is_space (rev (dropWhile is_space s)))"

definition startswith :: "string \<Rightarrow> string \<Rightarrow> bool" where
  "startswith s p = (take (length p) s = p)"

definition get_auth_token :: "ambient \<Rightarrow> filesystem \<Rightarrow> error + string" where
  "get_auth_token amb fs =
     (if truthy (module_auth_token_path amb) then
        (case module_auth_token_path amb of
           None \<Rightarrow> Inl (OSError [])
         | Some path \<Rightarrow>
             (case fs path of
                None \<Rightarrow> Inl (OSError path)
              | Some text \<Rightarrow>
                  (let token = strip text in
                   if \<not> startswith token ''ghp_''
                   then Inl (ValueError ''Invalid Token Format'')
                   else Inr token)))
      else if truthy (module_auth_token amb) then
        (case module_auth_token amb of
           None \<Rightarrow> Inl (AuthenticationError [])
         | Some tok \<Rightarrow> Inr tok)
      else Inl (AuthenticationError
        (''You can set your auth token using PyGistApi.auth_token='' @
         [CHR 0x27] @ ''your auth token'' @ [CHR 0x27] @
         '' or by setting the environment variable: AUTH_TOKEN=<AUTH-TOKEN>'')))"

section \<open>base.py: the Requester\<close>

record client =
  auth_token :: string
  timeout :: int
  sleep_time :: real
  retries :: int
  headers :: "(string \<times> string) list"

definition BASE_HEADERS :: "ambient \<Rightarrow> (string \<times> string) list" where
  "BASE_HEADERS amb =
     [(''Accept'', ''application/vnd.github+json''),
      (''X-GitHub-Api-Version'',
         (case env_GITHUB_API_VERSION amb of None \<Rightarrow> ''2022-11-28'' | Some v \<Rightarrow> v))]"

definition API_URL :: string where
  "API_URL = ''https://api.github.com/gists''"

text \<open>How an f-string renders the \<open>auth_token\<close> argument: \<open>None\<close> prints as \<open>None\<close>.\<close>

fun format_optional :: "string option \<Rightarrow> string" where
  "format_optional None = ''None''"
| "format_optional (Some s) = s"

text \<open>
  \<open>Requester.__init__\<close>. The stored token is \<open>auth_token or get_auth_token()\<close>; the
  header is built by \<open>f"Bearer {auth_token}"\<close> from the constructor's argument.
\<close>

definition Requester_init ::
  "ambient \<Rightarrow> filesystem \<Rightarrow> string option \<Rightarrow> int \<Rightarrow> real \<Rightarrow> int \<Rightarrow> error + client" where
  "Requester_init amb fs auth_token_arg timeout_arg sleep_time_arg max_connection_retries =
     (case (case auth_token_arg of
              Some s \<Rightarrow> (if s \<noteq> [] then Inr s else get_auth_token amb fs)
            | None \<Rightarrow> get_auth_token amb fs) of
        Inl e \<Rightarrow> Inl e
      | Inr tok \<Rightarrow>
          Inr \<lparr> auth_token = tok,
                timeout = timeout_arg,
                sleep_time = sleep_time_arg,
                retries = max_connection_retries,
                headers = AList.update ''Authorization''
                            (''Bearer '' @ format_optional auth_token_arg)
                            (BASE_HEADERS amb) \<rparr>)"

text \<open>
  The retry loop of \<open>_async_request\<close> (lines 63 to 81), with the loop variables \<open>resp\<close>
  and \<open>tries\<close>. A \<open>raise\<close> inside an \<open>except\<close> leaves the loop before the sleep at its
  end; the loop's normal exit hands \<open>resp\<close> on, which is still \<open>None\<close> when the body never
  ran.
\<close>

function request_loop ::
  "client \<Rightarrow> transport \<Rightarrow> request \<Rightarrow> response option \<Rightarrow> int \<Rightarrow> event list
     \<Rightarrow> (error + response option) \<times> event list" where
  "request_loop c tr rq resp tries w =
     (if resp = None \<and> tries \<le> retries c then
        (let tries' = tries + 1;
             w1 = w @ [Attempt rq]
         in case tr (attempts w) rq of
              Response r \<Rightarrow>
                request_loop c tr rq (Some r) tries' (w1 @ [Sleep (sleep_time c)])
            | TimeoutExc e \<Rightarrow>
                if tries' \<ge> retries c
                then (Inl (TimeoutException (''Timeout error: '' @ e)), w1)
                else request_loop c tr rq resp tries' (w1 @ [Sleep (sleep_time c)])
            | OtherExc e \<Rightarrow>
                if tries' \<ge> retries c
                then (Inl (UnExpectedError (''An Unexpected error occurred: '' @ e)), w1)
                else request_loop c tr rq resp tries' (w1 @ [Sleep (sleep_time c)]))
      else (Inr resp, w))"
  by pat_completeness auto
termination
  by (relation "measure (\<lambda>(c, tr, rq, resp, tries, w). nat (retries c + 1 - tries))") auto

declare request_loop.simps [simp del]

text \<open>
  Lines 83 to 89: \<open>resp.json()\<close> with \<open>JSONDecodeError\<close>, and no other exception,
  replaced by \<open>{}\<close>, then \<open>json_["code"] = resp.status_code\<close>, which only a dict
  accepts with a string key.
\<close>

definition merge_status :: "response \<Rightarrow> error + pydict" where
  "merge_status resp =
     (case (case json_body resp of
              Json j \<Rightarrow> Inr j
            | JSONDecodeError \<Rightarrow> Inr (PyDict [])
            | JsonRaises x \<Rightarrow> Inl (raised x)) of
        Inl e \<Rightarrow> Inl e
      | Inr decoded \<Rightarrow>
          (case decoded of
             PyDict d \<Rightarrow> Inr (AList.update ''code'' (PyInt (status_code resp)) d)
           | _ \<Rightarrow> Inl TypeError))"

definition build_request ::
  "client \<Rightarrow> string \<Rightarrow> string \<Rightarrow> pyval option \<Rightarrow> pydict option \<Rightarrow> request" where
  "build_request c method endpoint data params =
     \<lparr> rq_method = method,
       rq_url = API_URL @ endpoint,
       rq_headers = headers c,
       rq_timeout = timeout c,
       rq_json = data,
       rq_params = params \<rparr>"

definition async_request ::
  "client \<Rightarrow> transport \<Rightarrow> string \<Rightarrow> string \<Rightarrow> pyval option \<Rightarrow> pydict option \<Rightarrow> event list
     \<Rightarrow> (error + pydict) \<times> event list" where
  "async_request c tr method endpoint data params w =
     (case request_loop c tr (build_request c method endpoint data params) None 0 w of
        (Inl e, w') \<Rightarrow> (Inl e, w')
      | (Inr None, w') \<Rightarrow> (Inl AttributeError, w')
      | (Inr (Some resp), w') \<Rightarrow> (merge_status resp, w'))"

section \<open>async_gist_api.py: the resource operations\<close>

text \<open>\<open>isinstance(v, int)\<close>: \<open>bool\<close> is a subclass of \<open>int\<close> in Python.\<close>

fun isinstance_int :: "pyval \<Rightarrow> bool" where
  "isinstance_int (PyInt i) = True"
| "isinstance_int (PyBool b) = True"
| "isinstance_int v = False"

text \<open>
  The integer an \<open>int\<close> instance compares as; the code compares only after
  \<open>isinstance\<close> has succeeded, so the value chosen for the other cases is never used.
\<close>

fun int_value :: "pyval \<Rightarrow> int" where
  "int_value (PyInt i) = i"
| "int_value (PyBool b) = (if b then 1 else 0)"
| "int_value v = 0"

text \<open>
  The two checks that open every paginated method (\<open>list_gists\<close>, \<open>public_gists\<close>,
  \<open>starred_gists\<close>, \<open>gist_commits\<close>, \<open>gist_forks\<close>): the error raised, if any.
\<close>

definition check_pagination :: "pyval \<Rightarrow> pyval \<Rightarrow> error option" where
  "check_pagination per_page page =
     (if \<not> isinstance_int per_page \<or> int_value per_page > 100
      then Some (InvalidArg ''per_page should be an integer and less than 100'')
      else if \<not> isinstance_int page
      then Some (InvalidArg ''page should be an integer'')
      else None)"

definition list_gists ::
  "client \<Rightarrow> transport \<Rightarrow> pyval \<Rightarrow> pyval \<Rightarrow> pyval \<Rightarrow> event list
     \<Rightarrow> (error + pydict) \<times> event list" where
  "list_gists c tr per_page page since w =
     (case check_pagination per_page page of
        Some e \<Rightarrow> (Inl e, w)
      | None \<Rightarrow>
          async_request c tr ''GET'' [] None
            (Some [(''per_page'', per_page), (''page'', page), (''since'', since)]) w)"

text \<open>
  The \<open>content\<close> argument, annotated \<open>Union[str, List[str]]\<close>: a string, a list of
  strings, or a value that is neither a \<open>str\<close> nor a \<open>list\<close>.
\<close>

datatype content = Text string | Paths "string list" | NotStrOrList

text \<open>\<open>os.path.basename\<close> (POSIX): what follows the last slash.\<close>

definition basename :: "string \<Rightarrow> string" where
  "basename p = rev (takeWhile (\<lambda>ch. ch \<noteq> CHR ''/'') (rev p))"

text \<open>The loop of \<open>create_gist\<close> over \<open>files\<close>, filling \<open>file_data\<close>.\<close>

fun read_files :: "filesystem \<Rightarrow> string list \<Rightarrow> pydict \<Rightarrow> pydict" where
  "read_files fs [] file_data = file_data"
| "read_files fs (file # files) file_data =
     (case fs file of
        Some text \<Rightarrow>
          read_files fs files
            (AList.update (basename file) (PyDict [(''content'', PyStr (strip text))]) file_data)
      | None \<Rightarrow> read_files fs files file_data)"

definition files_from_disk :: "filesystem \<Rightarrow> string list \<Rightarrow> error + pyval" where
  "files_from_disk fs files =
     (let file_data = read_files fs files []
      in if file_data = [] then Inl (FileNotFoundError ''Unable to locate the file(s)'')
         else Inr (PyDict file_data))"

definition create_gist ::
  "client \<Rightarrow> transport \<Rightarrow> filesystem \<Rightarrow> content \<Rightarrow> string option \<Rightarrow> string \<Rightarrow> bool
     \<Rightarrow> event list \<Rightarrow> (error + pydict) \<times> event list" where
  "create_gist c tr fs content_arg file_name description public w =
     (let data = [(''description'', PyStr description), (''public'', PyBool public)]
      in case (case content_arg of
                 NotStrOrList \<Rightarrow>
                   Inl (InvalidArg
                     ''content should be str, list of file paths, or a single file path'')
               | Paths files \<Rightarrow> files_from_disk fs files
               | Text s \<Rightarrow>
                   if fs s \<noteq> None then files_from_disk fs [s]
                   else Inr (PyDict
                     [(if truthy file_name then format_optional file_name
                       else ''untitled.txt'',
                       PyDict [(''content'', PyStr s)])])) of
           Inl e \<Rightarrow> (Inl e, w)
         | Inr files_value \<Rightarrow>
             async_request c tr ''POST'' []
               (Some (PyDict (AList.update ''files'' files_value data))) None w)"

text \<open>
  \<open>get_gist\<close> with the default \<open>paste=False\<close>, the way \<open>update_gist\<close> calls it.
  \<open>gist_id\<close> stands for its rendering in the f-string, its only use.
\<close>

definition get_gist ::
  "client \<Rightarrow> transport \<Rightarrow> string \<Rightarrow> event list \<Rightarrow> (error + pydict) \<times> event list" where
  "get_gist c tr gist_id w = async_request c tr ''GET'' (''/'' @ gist_id) None None w"

text \<open>
  \<open>name in v\<close> for a string \<open>name\<close>: a key of a dict, an element of a list, a substring of
  a string, and a \<open>TypeError\<close> for a value that is not a container.
\<close>

fun substring :: "string \<Rightarrow> string \<Rightarrow> bool" where
  "substring xs [] = (xs = [])"
| "substring xs (y # ys) = (take (length xs) (y # ys) = xs \<or> substring xs ys)"

fun py_in :: "string \<Rightarrow> pyval \<Rightarrow> error + bool" where
  "py_in name (PyDict d) = Inr (map_of d name \<noteq> None)"
| "py_in name (PyList xs) = Inr (PyStr name \<in> set xs)"
| "py_in name (PyStr t) = Inr (substring name t)"
| "py_in name v = Inl TypeError"

definition file_not_found_message :: "string \<Rightarrow> string" where
  "file_not_found_message filename_to_update =
     ''File '' @ [CHR 0x27] @ filename_to_update @ [CHR 0x27] @ '' not found in the Gist.''"

definition update_gist ::
  "client \<Rightarrow> transport \<Rightarrow> filesystem \<Rightarrow> content \<Rightarrow> string \<Rightarrow> string \<Rightarrow> string
     \<Rightarrow> event list \<Rightarrow> (error + pydict) \<times> event list" where
  "update_gist c tr fs content_arg gist_id filename_to_update description w =
     (let data = [(''description'', PyStr description)]
      in case get_gist c tr gist_id w of
           (Inl e, w1) \<Rightarrow> (Inl e, w1)
         | (Inr gist, w1) \<Rightarrow>
             (case map_of gist ''files'' of
                None \<Rightarrow> (Inr [(''message'', PyStr ''files not found'')], w1)
              | Some files \<Rightarrow>
                  (case py_in filename_to_update files of
                     Inl e \<Rightarrow> (Inl e, w1)
                   | Inr present \<Rightarrow>
                       if \<not> present
                       then (Inr [(''message'',
                                   PyStr (file_not_found_message filename_to_update))], w1)
                       else
                         (case content_arg of
                            Text s \<Rightarrow>
                              async_request c tr ''PATCH'' (''/'' @ gist_id)
                                (Some (PyDict (AList.update ''files''
                                   (PyDict [(filename_to_update,
                                      PyDict [(''content'',
                                        PyStr (case fs s of Some text \<Rightarrow> strip text
                                               | None \<Rightarrow> s))])])
                                   data)))
                                None w1
                          | Paths ps \<Rightarrow>
                              (Inl (InvalidArg ''content should be str or a file path''), w1)
                          | NotStrOrList \<Rightarrow>
                              (Inl (InvalidArg ''content should be str or a file path''), w1)))))"

definition public_gists ::
  "client \<Rightarrow> transport \<Rightarrow> pyval \<Rightarrow> pyval \<Rightarrow> pyval \<Rightarrow> event list
     \<Rightarrow> (error + pydict) \<times> event list" where
  "public_gists c tr per_page page since w =
     (case check_pagination per_page page of
        Some e \<Rightarrow> (Inl e, w)
      | None \<Rightarrow> async_request c tr ''GET'' ''/public'' None None w)"

definition starred_gists ::
  "client \<Rightarrow> transport \<Rightarrow> pyval \<Rightarrow> pyval \<Rightarrow> pyval \<Rightarrow> event list
     \<Rightarrow> (error + pydict) \<times> event list" where
  "starred_gists c tr per_page page since w =
     (case check_pagination per_page page of
        Some e \<Rightarrow> (Inl e, w)
      | None \<Rightarrow> async_request c tr ''GET'' ''/starred'' None None w)"

definition gist_commits ::
  "client \<Rightarrow> transport \<Rightarrow> string \<Rightarrow> pyval \<Rightarrow> pyval \<Rightarrow> event list
     \<Rightarrow> (error + pydict) \<times> event list" where
  "gist_commits c tr gist_id per_page page w =
     (case check_pagination per_page page of
        Some e \<Rightarrow> (Inl e, w)
      | None \<Rightarrow>
          async_request c tr ''GET'' (''/'' @ gist_id @ ''/commits'') None
            (Some [(''per_page'', per_page), (''page'', page)]) w)"

definition gist_forks ::
  "client \<Rightarrow> transport \<Rightarrow> string \<Rightarrow> pyval \<Rightarrow> pyval \<Rightarrow> event list
     \<Rightarrow> (error + pydict) \<times> event list" where
  "gist_forks c tr gist_id per_page page w =
     (case check_pagination per_page page of
        Some e \<Rightarrow> (Inl e, w)
      | None \<Rightarrow>
          async_request c tr ''GET'' (''/'' @ gist_id @ ''/forks'') None
            (Some [(''per_page'', per_page), (''page'', page)]) w)"

section \<open>Predicates and sample inputs used in the statements\<close>

text \<open>Every attempt in the trace is directly followed by a sleep of duration \<open>d\<close>.\<close>

fun sleeps_after_attempts :: "real \<Rightarrow> event list \<Rightarrow> bool" where
  "sleeps_after_attempts d [] = True"
| "sleeps_after_attempts d (Attempt rq # Sleep t # es) = (t = d \<and> sleeps_after_attempts d es)"
| "sleeps_after_attempts d (Attempt rq # es) = False"
| "sleeps_after_attempts d (Sleep t # es) = sleeps_after_attempts d es"

fun transport_error :: "error \<Rightarrow> bool" where
  "transport_error (TimeoutException m) = True"
| "transport_error (UnExpectedError m) = True"
| "transport_error e = False"

fun is_transport_failure :: "error + 'a \<Rightarrow> bool" where
  "is_transport_failure (Inl e) = transport_error e"
| "is_transport_failure (Inr r) = False"

fun is_invalid_arg :: "error + 'a \<Rightarrow> bool" where
  "is_invalid_arg (Inl (InvalidArg m)) = True"
| "is_invalid_arg r = False"

text \<open>A client with the constructor's defaults but for the number of retries.\<close>

definition demo_client :: "int \<Rightarrow> client" where
  "demo_client r =
     \<lparr> auth_token = ''ghp_x'', timeout = 5, sleep_time = 1 / 2, retries = r,
       headers = [(''Authorization'', ''Bearer ghp_x'')] \<rparr>"

text \<open>Transports: one that times out on every attempt, one whose first attempt times out
  before the server answers 500 with an empty body, one that answers 204 with no body.\<close>

definition always_timeout :: transport where
  "always_timeout k rq = TimeoutExc ''timed out''"

definition timeout_then_500 :: transport where
  "timeout_then_500 k rq =
     (if k = 0 then TimeoutExc ''timed out''
      else Response \<lparr> status_code = 500, json_body = JSONDecodeError \<rparr>)"

definition no_content_204 :: transport where
  "no_content_204 k rq = Response \<lparr> status_code = 204, json_body = JSONDecodeError \<rparr>"

text \<open>A server that answers every request with status 200 and a gist holding \<open>b.txt\<close>.\<close>

definition gist_with_b_txt :: transport where
  "gist_with_b_txt k rq =
     Response \<lparr> status_code = 200,
       json_body = Json (PyDict [(''id'', PyStr ''abc''),
         (''files'', PyDict [(''b.txt'', PyDict [(''content'', PyStr ''old'')])])]) \<rparr>"

text \<open>A server that answers every request with status 404 and GitHub's error body.\<close>

definition gist_not_found_404 :: transport where
  "gist_not_found_404 k rq =
     Response \<lparr> status_code = 404,
       json_body = Json (PyDict [(''message'', PyStr ''Not Found'')]) \<rparr>"

text \<open>A server whose 200 response has a body that is not valid UTF-8.\<close>

definition invalid_utf8_200 :: transport where
  "invalid_utf8_200 k rq =
     Response \<lparr> status_code = 200,
       json_body = JsonRaises (UnicodeDecode ''invalid start byte'') \<rparr>"

text \<open>The token set in the package variable only, and a disk without files.\<close>

definition token_in_module :: ambient where
  "token_in_module =
     \<lparr> module_auth_token = Some ''ghp_secret'', module_auth_token_path = None,
       env_GITHUB_API_VERSION = None \<rparr>"

definition no_files :: filesystem where
  "no_files path = None"

section \<open>Facts about the retry loop\<close>


lemma request_loop_Some:
  "request_loop c tr rq (Some r) tries w = (Inr (Some r), w)"
  by (simp add: request_loop.simps)

lemma loop_ends_here:
  assumes "attempts w' = Suc (attempts w)"
    and "\<And>r. tr (attempts w) rq = Response r \<Longrightarrow> res = Inr (Some r)"
  shows "attempts w \<le> attempts w' \<and>
     (\<forall>k. attempts w \<le> k \<and> Suc k < attempts w' \<longrightarrow> (\<forall>r. tr k rq \<noteq> Response r)) \<and>
     (\<forall>k r. attempts w \<le> k \<and> k < attempts w' \<and> tr k rq = Response r
         \<longrightarrow> Suc k = attempts w' \<and> res = Inr (Some r))"
  using assms by (auto simp: le_less_Suc_eq)

lemma loop_goes_on:
  assumes fail: "\<And>r. tr n rq \<noteq> Response r"
    and le: "Suc n \<le> attempts w'"
    and before: "\<And>k r. Suc n \<le> k \<Longrightarrow> Suc k < attempts w' \<Longrightarrow> tr k rq \<noteq> Response r"
    and final: "\<And>k r. Suc n \<le> k \<Longrightarrow> k < attempts w' \<Longrightarrow> tr k rq = Response r
         \<Longrightarrow> Suc k = attempts w' \<and> res = Inr (Some r)"
  shows "n \<le> attempts w' \<and>
     (\<forall>k. n \<le> k \<and> Suc k < attempts w' \<longrightarrow> (\<forall>r. tr k rq \<noteq> Response r)) \<and>
     (\<forall>k r. n \<le> k \<and> k < attempts w' \<and> tr k rq = Response r
         \<longrightarrow> Suc k = attempts w' \<and> res = Inr (Some r))"
proof (intro conjI allI impI)
  show "n \<le> attempts w'" using le by simp
next
  fix k r assume h: "n \<le> k \<and> Suc k < attempts w'"
  show "tr k rq \<noteq> Response r"
  proof (cases "k = n")
    case True
    then show ?thesis using fail by simp
  next
    case False
    with h have "Suc n \<le> k" by simp
    then show ?thesis using before h by blast
  qed
next
  fix k r assume h: "n \<le> k \<and> k < attempts w' \<and> tr k rq = Response r"
  then have "k \<noteq> n" using fail by auto
  with h have "Suc n \<le> k" by simp
  with h final show "Suc k = attempts w'" and "res = Inr (Some r)" by blast+
qed

text \<open>
  What one run of the loop adds to the trace: every attempt but the last met a transport
  failure, and an attempt that received a response is the last one and gives the result.
\<close>

lemma request_loop_attempts:
  "request_loop c tr rq resp tries w = (res, w') \<Longrightarrow> resp = None \<Longrightarrow>
     attempts w \<le> attempts w' \<and>
     (\<forall>k. attempts w \<le> k \<and> Suc k < attempts w' \<longrightarrow> (\<forall>r. tr k rq \<noteq> Response r)) \<and>
     (\<forall>k r. attempts w \<le> k \<and> k < attempts w' \<and> tr k rq = Response r
         \<longrightarrow> Suc k = attempts w' \<and> res = Inr (Some r))"
proof (induction c tr rq resp tries w rule: request_loop.induct)
  case (1 c tr rq resp tries w)
  let ?w2 = "(w @ [Attempt rq]) @ [Sleep (sleep_time c)]"
  have at: "attempts ?w2 = Suc (attempts w)"
    by (simp add: attempts_def)
  show ?case
  proof (cases "tries \<le> retries c")
    case False
    with "1.prems" show ?thesis
      by (auto simp add: request_loop.simps)
  next
    case True
    note budget = True
    show ?thesis
    proof (cases "tr (attempts w) rq")
      case (Response r)
      with "1.prems" budget have "res = Inr (Some r)" and "w' = ?w2"
        by (simp_all add: request_loop.simps[of c tr rq None] request_loop_Some)
      with Response at show ?thesis
        by (intro loop_ends_here) simp_all
    next
      case (TimeoutExc e)
      show ?thesis
      proof (cases "retries c \<le> tries + 1")
        case True
        with "1.prems" budget TimeoutExc have "w' = w @ [Attempt rq]"
          by (simp add: request_loop.simps[of c tr rq None])
        with TimeoutExc show ?thesis
          by (intro loop_ends_here) (simp_all add: attempts_def)
      next
        case False
        with "1.prems" budget TimeoutExc
        have run: "request_loop c tr rq resp (tries + 1) ?w2 = (res, w')"
          by (simp add: request_loop.simps[of c tr rq None tries])
        from budget "1.prems"(2) have cond: "resp = None \<and> tries \<le> retries c"
          by simp
        note ih = "1.IH"(2)[OF cond refl refl TimeoutExc False run "1.prems"(2), unfolded at]
        show ?thesis
        proof (rule loop_goes_on)
          show "tr (attempts w) rq \<noteq> Response r" for r
            using TimeoutExc by simp
        qed (use ih in blast)+
      qed
    next
      case (OtherExc e)
      show ?thesis
      proof (cases "retries c \<le> tries + 1")
        case True
        with "1.prems" budget OtherExc have "w' = w @ [Attempt rq]"
          by (simp add: request_loop.simps[of c tr rq None])
        with OtherExc show ?thesis
          by (intro loop_ends_here) (simp_all add: attempts_def)
      next
        case False
        with "1.prems" budget OtherExc
        have run: "request_loop c tr rq resp (tries + 1) ?w2 = (res, w')"
          by (simp add: request_loop.simps[of c tr rq None tries])
        from budget "1.prems"(2) have cond: "resp = None \<and> tries \<le> retries c"
          by simp
        note ih = "1.IH"(3)[OF cond refl refl OtherExc False run "1.prems"(2), unfolded at]
        show ?thesis
        proof (rule loop_goes_on)
          show "tr (attempts w) rq \<noteq> Response r" for r
            using OtherExc by simp
        qed (use ih in blast)+
      qed
    qed
  qed
qed


text \<open>
  The events one run of the loop appends: attempt and sleep in pairs, and a last attempt
  without its sleep exactly when the loop is left by a \<open>raise\<close>.
\<close>

lemma request_loop_shape:
  "request_loop c tr rq resp tries w = (res, w') \<Longrightarrow> resp = None \<Longrightarrow>
     \<exists>ev. w' = w @ ev \<and> set ev \<subseteq> {Attempt rq, Sleep (sleep_time c)} \<and>
       (case res of
          Inl e \<Rightarrow> transport_error e \<and>
                   (\<exists>ev'. ev = ev' @ [Attempt rq] \<and> sleeps_after_attempts (sleep_time c) ev')
        | Inr r \<Rightarrow> sleeps_after_attempts (sleep_time c) ev)"
proof (induction c tr rq resp tries w rule: request_loop.induct)
  case (1 c tr rq resp tries w)
  let ?d = "sleep_time c"
  let ?w2 = "(w @ [Attempt rq]) @ [Sleep ?d]"
  let ?P = "\<lambda>w res w'. \<exists>ev. w' = w @ ev \<and> set ev \<subseteq> {Attempt rq, Sleep ?d} \<and>
       (case res of
          Inl e \<Rightarrow> transport_error e \<and>
                   (\<exists>ev'. ev = ev' @ [Attempt rq] \<and> sleeps_after_attempts ?d ev')
        | Inr r \<Rightarrow> sleeps_after_attempts ?d ev)"
  have step: "?P w res w'" if "?P ?w2 res w'"
  proof -
    from that obtain ev where ev: "w' = ?w2 @ ev" "set ev \<subseteq> {Attempt rq, Sleep ?d}"
      and sh: "(case res of
          Inl e \<Rightarrow> transport_error e \<and>
                   (\<exists>ev'. ev = ev' @ [Attempt rq] \<and> sleeps_after_attempts ?d ev')
        | Inr r \<Rightarrow> sleeps_after_attempts ?d ev)"
      by blast
    let ?ev = "Attempt rq # Sleep ?d # ev"
    have a: "w' = w @ ?ev" using ev(1) by simp
    have b: "set ?ev \<subseteq> {Attempt rq, Sleep ?d}" using ev(2) by auto
    have c: "(case res of
          Inl e \<Rightarrow> transport_error e \<and>
                   (\<exists>ev'. ?ev = ev' @ [Attempt rq] \<and> sleeps_after_attempts ?d ev')
        | Inr r \<Rightarrow> sleeps_after_attempts ?d ?ev)"
    proof (cases res)
      case (Inl e)
      with sh obtain ev' where "ev = ev' @ [Attempt rq]" "sleeps_after_attempts ?d ev'"
        and "transport_error e" by auto
      then have "?ev = (Attempt rq # Sleep ?d # ev') @ [Attempt rq]"
        "sleeps_after_attempts ?d (Attempt rq # Sleep ?d # ev')" by simp_all
      with Inl \<open>transport_error e\<close> show ?thesis by (simp del: append_Cons)
    next
      case (Inr r)
      with sh show ?thesis by simp
    qed
    from a b c show ?thesis by blast
  qed
  have stop: "?P w (Inl e) (w @ [Attempt rq])" if "transport_error e" for e
  proof -
    have "[Attempt rq] = [] @ [Attempt rq] \<and> sleeps_after_attempts ?d []" by simp
    then have "\<exists>ev'. [Attempt rq] = ev' @ [Attempt rq] \<and> sleeps_after_attempts ?d ev'" by blast
    with that show ?thesis by simp
  qed
  show ?case
  proof (cases "tries \<le> retries c")
    case False
    with "1.prems" show ?thesis
      by (auto simp add: request_loop.simps)
  next
    case True
    note budget = True
    from budget "1.prems"(2) have cond: "resp = None \<and> tries \<le> retries c"
      by simp
    show ?thesis
    proof (cases "tr (attempts w) rq")
      case (Response r)
      with "1.prems" budget have "res = Inr (Some r)" and "w' = w @ [Attempt rq, Sleep ?d]"
        by (simp_all add: request_loop.simps[of c tr rq None] request_loop_Some)
      then show ?thesis by simp
    next
      case (TimeoutExc e)
      show ?thesis
      proof (cases "retries c \<le> tries + 1")
        case True
        with "1.prems" budget TimeoutExc have "w' = w @ [Attempt rq]"
          and "res = Inl (TimeoutException (''Timeout error: '' @ e))"
          by (simp_all add: request_loop.simps[of c tr rq None])
        then show ?thesis using stop[of "TimeoutException (''Timeout error: '' @ e)"] by simp
      next
        case False
        with "1.prems" budget TimeoutExc
        have run: "request_loop c tr rq resp (tries + 1) ?w2 = (res, w')"
          by (simp add: request_loop.simps[of c tr rq None tries])
        show ?thesis
          by (rule step) (rule "1.IH"(2)[OF cond refl refl TimeoutExc False run "1.prems"(2)])
      qed
    next
      case (OtherExc e)
      show ?thesis
      proof (cases "retries c \<le> tries + 1")
        case True
        with "1.prems" budget OtherExc have "w' = w @ [Attempt rq]"
          and "res = Inl (UnExpectedError (''An Unexpected error occurred: '' @ e))"
          by (simp_all add: request_loop.simps[of c tr rq None])
        then show ?thesis
          using stop[of "UnExpectedError (''An Unexpected error occurred: '' @ e)"] by simp
      next
        case False
        with "1.prems" budget OtherExc
        have run: "request_loop c tr rq resp (tries + 1) ?w2 = (res, w')"
          by (simp add: request_loop.simps[of c tr rq None tries])
        show ?thesis
          by (rule step) (rule "1.IH"(3)[OF cond refl refl OtherExc False run "1.prems"(2)])
      qed
    qed
  qed
qed

text \<open>
  A transport that never answers: the loop is left by a \<open>raise\<close>, after
  \<open>max 1 (retries - tries)\<close> further attempts.
\<close>

lemma request_loop_all_fail:
  "request_loop c tr rq resp tries w = (res, w') \<Longrightarrow> resp = None \<Longrightarrow>
     tries \<le> retries c \<Longrightarrow> \<forall>k r. tr k rq \<noteq> Response r \<Longrightarrow>
     attempts w' = attempts w + nat (max 1 (retries c - tries)) \<and>
     (\<exists>e. res = Inl e \<and> transport_error e)"
proof (induction c tr rq resp tries w rule: request_loop.induct)
  case (1 c tr rq resp tries w)
  let ?w2 = "(w @ [Attempt rq]) @ [Sleep (sleep_time c)]"
  have at: "attempts ?w2 = Suc (attempts w)"
    by (simp add: attempts_def)
  note budget = "1.prems"(3)
  note fail = "1.prems"(4)
  from budget "1.prems"(2) have cond: "resp = None \<and> tries \<le> retries c"
    by simp
  have stop: "attempts (w @ [Attempt rq]) = attempts w + nat (max 1 (retries c - tries))"
    if "retries c \<le> tries + 1"
  proof -
    from that budget have "nat (max 1 (retries c - tries)) = 1" by arith
    then show ?thesis by (simp add: attempts_def)
  qed
  have step: "attempts w' = attempts w + nat (max 1 (retries c - tries))"
    if "\<not> retries c \<le> tries + 1"
      and "attempts w' = attempts ?w2 + nat (max 1 (retries c - (tries + 1)))"
  proof -
    from that(1) have "nat (max 1 (retries c - tries)) =
        Suc (nat (max 1 (retries c - (tries + 1))))" by arith
    with that(2) show ?thesis unfolding at by simp
  qed
  show ?case
  proof (cases "tr (attempts w) rq")
    case (Response r)
    with fail show ?thesis by simp
  next
    case (TimeoutExc e)
    show ?thesis
    proof (cases "retries c \<le> tries + 1")
      case True
      with "1.prems" budget TimeoutExc have "w' = w @ [Attempt rq]"
        and "res = Inl (TimeoutException (''Timeout error: '' @ e))"
        by (simp_all add: request_loop.simps[of c tr rq None])
      with stop[OF True] show ?thesis by simp
    next
      case False
      with "1.prems" budget TimeoutExc
      have run: "request_loop c tr rq resp (tries + 1) ?w2 = (res, w')"
        by (simp add: request_loop.simps[of c tr rq None tries])
      from False have "tries + 1 \<le> retries c" by simp
      note ih = "1.IH"(2)[OF cond refl refl TimeoutExc False run "1.prems"(2) this fail]
      with step[OF False] show ?thesis by blast
    qed
  next
    case (OtherExc e)
    show ?thesis
    proof (cases "retries c \<le> tries + 1")
      case True
      with "1.prems" budget OtherExc have "w' = w @ [Attempt rq]"
        and "res = Inl (UnExpectedError (''An Unexpected error occurred: '' @ e))"
        by (simp_all add: request_loop.simps[of c tr rq None])
      with stop[OF True] show ?thesis by simp
    next
      case False
      with "1.prems" budget OtherExc
      have run: "request_loop c tr rq resp (tries + 1) ?w2 = (res, w')"
        by (simp add: request_loop.simps[of c tr rq None tries])
      from False have "tries + 1 \<le> retries c" by simp
      note ih = "1.IH"(3)[OF cond refl refl OtherExc False run "1.prems"(2) this fail]
      with step[OF False] show ?thesis by blast
    qed
  qed
qed

text \<open>From the loop to \<open>_async_request\<close>.\<close>

lemma merge_status_no_transport_failure: "\<not> is_transport_failure (merge_status r)"
proof (cases "json_body r")
  case (Json j)
  then show ?thesis by (cases j) (simp_all add: merge_status_def)
next
  case JSONDecodeError
  then show ?thesis by (simp add: merge_status_def)
next
  case (JsonRaises x)
  then show ?thesis by (cases x) (simp_all add: merge_status_def)
qed

lemma async_request_run:
  assumes "async_request c tr method endpoint data params w = (out, w')"
  obtains res where
    "request_loop c tr (build_request c method endpoint data params) None 0 w = (res, w')"
    "out = (case res of Inl e \<Rightarrow> Inl e | Inr None \<Rightarrow> Inl AttributeError
            | Inr (Some resp) \<Rightarrow> merge_status resp)"
  using assms unfolding async_request_def
  by (auto split: prod.splits sum.splits option.splits)

lemma async_request_first_response:
  assumes "tr (attempts w) (build_request c method endpoint data params) = Response r"
    and "0 \<le> retries c"
  shows "async_request c tr method endpoint data params w =
           (merge_status r,
            w @ [Attempt (build_request c method endpoint data params), Sleep (sleep_time c)])"
  using assms
  by (simp add: async_request_def request_loop.simps[of c tr _ None 0] request_loop_Some)

lemma async_request_events:
  assumes "async_request c tr method endpoint data params w = (out, w')"
  shows "\<exists>ev. w' = w @ ev \<and>
           set ev \<subseteq> {Attempt (build_request c method endpoint data params), Sleep (sleep_time c)}"
proof -
  from assms obtain res where
    run: "request_loop c tr (build_request c method endpoint data params) None 0 w = (res, w')"
    by (rule async_request_run)
  from request_loop_shape[OF run refl] show ?thesis by blast
qed

lemma async_request_all_fail:
  assumes "async_request c tr method endpoint data params w = (out, w')"
    and "0 \<le> retries c"
    and "\<forall>k r. tr k (build_request c method endpoint data params) \<noteq> Response r"
  shows "attempts w' = attempts w + nat (max 1 (retries c)) \<and> is_transport_failure out"
proof -
  from assms(1) obtain res where
    run: "request_loop c tr (build_request c method endpoint data params) None 0 w = (res, w')"
    and out: "out = (case res of Inl e \<Rightarrow> Inl e | Inr None \<Rightarrow> Inl AttributeError
            | Inr (Some resp) \<Rightarrow> merge_status resp)"
    by (rule async_request_run)
  from request_loop_all_fail[OF run refl assms(2) assms(3)] out show ?thesis
    by auto
qed

section \<open>The request executor\<close>

text \<open>
  C1. The claim: with \<open>retry_count = r\<close> and a transport that fails every attempt, the
  executor makes \<open>r + 1\<close> attempts before raising the failure of the last error. Run on
  \<open>retries = 2\<close> and a transport that always times out, the executor raises
  \<open>TimeoutException\<close> with the last error's text after two attempts, not three: the
  \<open>raise\<close> is guarded by \<open>tries >= self.retries\<close> while the loop is guarded by
  \<open>tries <= self.retries\<close>. In general the number of attempts is \<open>max 1 r\<close>
  (\<open>async_request_all_fail\<close>).
\<close>

theorem two_retries_give_two_attempts:
  "async_request (demo_client 2) always_timeout ''GET'' [] None None [] =
     (Inl (TimeoutException ''Timeout error: timed out''),
      [Attempt (build_request (demo_client 2) ''GET'' [] None None),
       Sleep (1 / 2),
       Attempt (build_request (demo_client 2) ''GET'' [] None None)])
   \<and> attempts (snd (async_request (demo_client 2) always_timeout ''GET'' [] None None [])) = 2"
  by (simp add: async_request_def request_loop.simps demo_client_def always_timeout_def
      attempts_def build_request_def)

text \<open>
  C2, as amended. Every run of the executor sleeps \<open>sleep_time\<close> directly after each
  attempt, the first one and a successful one included, except after the last attempt of a
  run that ends by raising a transport failure: that attempt is the last event of the run.
\<close>

theorem sleep_after_every_attempt_that_does_not_raise:
  assumes "async_request c tr method endpoint data params w = (out, w')"
  shows "\<exists>ev. w' = w @ ev \<and>
           (if is_transport_failure out
            then \<exists>ev'. ev = ev' @ [Attempt (build_request c method endpoint data params)] \<and>
                       sleeps_after_attempts (sleep_time c) ev'
            else sleeps_after_attempts (sleep_time c) ev)"
proof -
  let ?rq = "build_request c method endpoint data params"
  from assms obtain res where
    run: "request_loop c tr ?rq None 0 w = (res, w')" and
    out: "out = (case res of Inl e \<Rightarrow> Inl e | Inr None \<Rightarrow> Inl AttributeError
            | Inr (Some resp) \<Rightarrow> merge_status resp)"
    by (rule async_request_run)
  from request_loop_shape[OF run refl] obtain ev where
    ev: "w' = w @ ev" and
    sh: "(case res of
          Inl e \<Rightarrow> transport_error e \<and>
                   (\<exists>ev'. ev = ev' @ [Attempt ?rq] \<and> sleeps_after_attempts (sleep_time c) ev')
        | Inr r \<Rightarrow> sleeps_after_attempts (sleep_time c) ev)"
    by blast
  have "if is_transport_failure out
        then \<exists>ev'. ev = ev' @ [Attempt ?rq] \<and> sleeps_after_attempts (sleep_time c) ev'
        else sleeps_after_attempts (sleep_time c) ev"
  proof (cases res)
    case (Inl e)
    with sh out show ?thesis by simp
  next
    case (Inr ro)
    have "\<not> is_transport_failure out"
      using Inr out
      by (cases ro) (simp_all add: merge_status_no_transport_failure)
    with Inr sh show ?thesis by simp
  qed
  with ev show ?thesis by blast
qed

text \<open>
  The amended C2 on a run whose first attempt times out and whose second is answered.
\<close>

theorem sleep_after_every_attempt_that_does_not_raise_witness:
  "async_request (demo_client 3) timeout_then_500 ''GET'' [] None None [] =
     (Inr [(''code'', PyInt 500)],
      [Attempt (build_request (demo_client 3) ''GET'' [] None None), Sleep (1 / 2),
       Attempt (build_request (demo_client 3) ''GET'' [] None None), Sleep (1 / 2)])
   \<and> sleeps_after_attempts (sleep_time (demo_client 3))
      [Attempt (build_request (demo_client 3) ''GET'' [] None None), Sleep (1 / 2),
       Attempt (build_request (demo_client 3) ''GET'' [] None None), Sleep (1 / 2)]"
proof -
  let ?rq = "build_request (demo_client 3) ''GET'' [] None None"
  let ?w = "[Attempt ?rq, Sleep (1 / 2), Attempt ?rq, Sleep (1 / 2)]"
  have run: "async_request (demo_client 3) timeout_then_500 ''GET'' [] None None [] =
     (Inr [(''code'', PyInt 500)], ?w)"
    by (simp add: async_request_def request_loop.simps demo_client_def timeout_then_500_def
        attempts_def build_request_def merge_status_def)
  from sleep_after_every_attempt_that_does_not_raise[OF run]
  have "sleeps_after_attempts (sleep_time (demo_client 3)) ?w"
    by simp
  with run show ?thesis by simp
qed

text \<open>
  C2 as stated fails: with \<open>retries = 0\<close> and a transport that times out, the single
  attempt is followed by the \<open>raise\<close> and by no sleep.
\<close>

theorem sleep_after_final_failure_counterexample:
  "\<not> sleeps_after_attempts (sleep_time (demo_client 0))
       (snd (async_request (demo_client 0) always_timeout ''GET'' [] None None []))"
  by (simp add: async_request_def request_loop.simps demo_client_def always_timeout_def
      attempts_def build_request_def)

text \<open>
  C5. A response received at any attempt of a run, whatever its status code, is the last
  attempt of that run and determines the result; every attempt before the last one met a
  transport failure; and a response to the first attempt ends the run after that one
  attempt.
\<close>

theorem response_ends_retry_loop:
  assumes "async_request c tr method endpoint data params w = (out, w')"
  shows "(\<forall>k. attempts w \<le> k \<and> Suc k < attempts w'
            \<longrightarrow> (\<forall>r. tr k (build_request c method endpoint data params) \<noteq> Response r)) \<and>
         (\<forall>k r. attempts w \<le> k \<and> k < attempts w' \<and>
                 tr k (build_request c method endpoint data params) = Response r
            \<longrightarrow> Suc k = attempts w' \<and> out = merge_status r) \<and>
         (\<forall>r. 0 \<le> retries c \<and>
              tr (attempts w) (build_request c method endpoint data params) = Response r
            \<longrightarrow> out = merge_status r \<and>
                w' = w @ [Attempt (build_request c method endpoint data params),
                          Sleep (sleep_time c)])"
proof -
  let ?rq = "build_request c method endpoint data params"
  from assms obtain res where
    run: "request_loop c tr ?rq None 0 w = (res, w')" and
    out: "out = (case res of Inl e \<Rightarrow> Inl e | Inr None \<Rightarrow> Inl AttributeError
            | Inr (Some resp) \<Rightarrow> merge_status resp)"
    by (rule async_request_run)
  note inv = request_loop_attempts[OF run refl]
  have a: "\<forall>k. attempts w \<le> k \<and> Suc k < attempts w' \<longrightarrow> (\<forall>r. tr k ?rq \<noteq> Response r)"
    using inv by blast
  have b: "\<forall>k r. attempts w \<le> k \<and> k < attempts w' \<and> tr k ?rq = Response r
            \<longrightarrow> Suc k = attempts w' \<and> out = merge_status r"
  proof (intro allI impI)
    fix k r assume h: "attempts w \<le> k \<and> k < attempts w' \<and> tr k ?rq = Response r"
    with inv have "Suc k = attempts w'" and "res = Inr (Some r)" by blast+
    then show "Suc k = attempts w' \<and> out = merge_status r" using out by simp
  qed
  have c: "\<forall>r. 0 \<le> retries c \<and> tr (attempts w) ?rq = Response r
            \<longrightarrow> out = merge_status r \<and> w' = w @ [Attempt ?rq, Sleep (sleep_time c)]"
    using assms async_request_first_response[of tr w c "method" "endpoint" "data" "params"] by auto
  from a b c show ?thesis by blast
qed

text \<open>
  C5 on a run that times out once and then receives a 500.
\<close>

theorem response_ends_retry_loop_witness:
  "async_request (demo_client 3) timeout_then_500 ''GET'' [] None None [] =
     (Inr [(''code'', PyInt 500)],
      [Attempt (build_request (demo_client 3) ''GET'' [] None None), Sleep (1 / 2),
       Attempt (build_request (demo_client 3) ''GET'' [] None None), Sleep (1 / 2)])
   \<and> merge_status \<lparr> status_code = 500, json_body = JSONDecodeError \<rparr> = Inr [(''code'', PyInt 500)]"
proof -
  let ?rq = "build_request (demo_client 3) ''GET'' [] None None"
  let ?w = "[Attempt ?rq, Sleep (1 / 2), Attempt ?rq, Sleep (1 / 2)]"
  have run: "async_request (demo_client 3) timeout_then_500 ''GET'' [] None None [] =
     (Inr [(''code'', PyInt 500)], ?w)"
    by (simp add: async_request_def request_loop.simps demo_client_def timeout_then_500_def
        attempts_def build_request_def merge_status_def)
  have at: "attempts ?w = 2" "attempts [] = 0" by (simp_all add: attempts_def)
  have r: "timeout_then_500 1 ?rq = Response \<lparr> status_code = 500, json_body = JSONDecodeError \<rparr>"
    by (simp add: timeout_then_500_def)
  from response_ends_retry_loop[OF run] at r
  have "Inr [(''code'', PyInt 500)] = merge_status \<lparr> status_code = 500, json_body = JSONDecodeError \<rparr>"
    by (metis One_nat_def Suc_1 le0 lessI)
  with run show ?thesis by simp
qed

text \<open>
  C7, as amended. For a response received during a run: when \<open>resp.json()\<close> raises
  \<open>JSONDecodeError\<close> (the body is absent or is not JSON text), the executor returns the
  mapping holding only the status code under \<open>code\<close>, not an error; when the body is a
  mapping, the executor returns it with the status code stored under \<open>code\<close>; any
  mapping the executor returns holds the numeric status code under \<open>code\<close>; and when
  \<open>resp.json()\<close> raises another exception, the executor raises that exception.
\<close>

theorem status_code_in_every_result:
  assumes "async_request c tr method endpoint data params w = (out, w')"
    and "attempts w \<le> k" and "k < attempts w'"
    and "tr k (build_request c method endpoint data params) = Response r"
  shows "(json_body r = JSONDecodeError \<longrightarrow> out = Inr [(''code'', PyInt (status_code r))]) \<and>
         (\<forall>d. json_body r = Json (PyDict d)
            \<longrightarrow> out = Inr (AList.update ''code'' (PyInt (status_code r)) d)) \<and>
         (\<forall>res. out = Inr res \<longrightarrow> map_of res ''code'' = Some (PyInt (status_code r))) \<and>
         (\<forall>x. json_body r = JsonRaises x \<longrightarrow> out = Inl (raised x))"
proof -
  let ?rq = "build_request c method endpoint data params"
  from assms(1) obtain res where
    run: "request_loop c tr ?rq None 0 w = (res, w')" and
    out: "out = (case res of Inl e \<Rightarrow> Inl e | Inr None \<Rightarrow> Inl AttributeError
            | Inr (Some resp) \<Rightarrow> merge_status resp)"
    by (rule async_request_run)
  from request_loop_attempts[OF run refl] assms(2,3,4) have "res = Inr (Some r)"
    by blast
  with out have m: "out = merge_status r" by simp
  have a: "json_body r = JSONDecodeError \<longrightarrow>
             merge_status r = Inr [(''code'', PyInt (status_code r))]"
    by (simp add: merge_status_def)
  have b: "\<forall>d. json_body r = Json (PyDict d) \<longrightarrow>
             merge_status r = Inr (AList.update ''code'' (PyInt (status_code r)) d)"
    by (simp add: merge_status_def)
  have c: "\<forall>res. merge_status r = Inr res \<longrightarrow>
             map_of res ''code'' = Some (PyInt (status_code r))"
    by (auto simp: merge_status_def update_conv'
        split: json_outcome.splits pyval.splits)
  have d: "\<forall>x. json_body r = JsonRaises x \<longrightarrow> merge_status r = Inl (raised x)"
    by (simp add: merge_status_def)
  from a b c d show ?thesis unfolding m by blast
qed

text \<open>The amended C7 on a 204 response without a body.\<close>

theorem status_code_in_every_result_witness:
  "async_request (demo_client 2) no_content_204 ''PUT'' ''/abc/star'' None None [] =
     (Inr [(''code'', PyInt 204)],
      [Attempt (build_request (demo_client 2) ''PUT'' ''/abc/star'' None None), Sleep (1 / 2)])
   \<and> map_of [(''code'', PyInt 204)] ''code'' = Some (PyInt 204)"
proof -
  let ?rq = "build_request (demo_client 2) ''PUT'' ''/abc/star'' None None"
  let ?w = "[Attempt ?rq, Sleep (1 / 2)]"
  let ?r = "\<lparr> status_code = 204, json_body = JSONDecodeError \<rparr>"
  have run: "async_request (demo_client 2) no_content_204 ''PUT'' ''/abc/star'' None None [] =
     (Inr [(''code'', PyInt 204)], ?w)"
    by (simp add: async_request_def request_loop.simps demo_client_def no_content_204_def
        attempts_def build_request_def merge_status_def)
  have le: "attempts [] \<le> 0" and lt: "0 < attempts ?w"
    by (simp_all add: attempts_def)
  have r: "no_content_204 0 ?rq = Response ?r"
    by (simp add: no_content_204_def)
  from status_code_in_every_result[OF run le lt r]
  have "map_of [(''code'', PyInt 204)] ''code'' = Some (PyInt (status_code ?r))"
    by blast
  with run show ?thesis by simp
qed

text \<open>
  C7 as stated fails: a 200 response whose body is not valid UTF-8 fails to decode, and
  the executor raises \<open>UnicodeDecodeError\<close> after the attempt and its sleep instead of
  returning the mapping that holds only the status code.
\<close>

theorem undecodable_body_raises_counterexample:
  "async_request (demo_client 2) invalid_utf8_200 ''GET'' ''/abc'' None None [] =
     (Inl (UnicodeDecodeError ''invalid start byte''),
      [Attempt (build_request (demo_client 2) ''GET'' ''/abc'' None None), Sleep (1 / 2)])
   \<and> fst (async_request (demo_client 2) invalid_utf8_200 ''GET'' ''/abc'' None None [])
       \<noteq> Inr [(''code'', PyInt 200)]"
  by (simp add: async_request_def request_loop.simps demo_client_def invalid_utf8_200_def
      attempts_def build_request_def merge_status_def)

section \<open>Client construction\<close>

text \<open>
  C3. The claim: the \<open>Authorization\<close> header is \<open>Bearer\<close> followed by the resolved
  token, also when the token comes from the ambient configuration. Constructed without a
  token argument while the package variable holds \<open>ghp_secret\<close>, the client stores
  \<open>ghp_secret\<close> but its header, sent with every request, reads \<open>Bearer None\<close>.
\<close>

theorem bearer_header_built_from_argument:
  "Requester_init token_in_module no_files None 5 (1 / 2) 2 =
     Inr \<lparr> auth_token = ''ghp_secret'', timeout = 5, sleep_time = 1 / 2, retries = 2,
           headers = [(''Accept'', ''application/vnd.github+json''),
                      (''X-GitHub-Api-Version'', ''2022-11-28''),
                      (''Authorization'', ''Bearer None'')] \<rparr>
   \<and> get_auth_token token_in_module no_files = Inr ''ghp_secret''
   \<and> (case Requester_init token_in_module no_files None 5 (1 / 2) 2 of
        Inl e \<Rightarrow> None
      | Inr c \<Rightarrow> map_of (rq_headers (build_request c ''GET'' [] None None)) ''Authorization'')
     = Some ''Bearer None''"
  by (simp add: Requester_init_def get_auth_token_def token_in_module_def BASE_HEADERS_def
      build_request_def)

text \<open>
  With a non-empty token argument the header does carry the stored token.
\<close>

lemma bearer_header_of_explicit_token:
  "tok \<noteq> [] \<Longrightarrow> Requester_init amb fs (Some tok) t s r = Inr c \<Longrightarrow>
     auth_token c = tok \<and> map_of (headers c) ''Authorization'' = Some (''Bearer '' @ tok)"
  by (auto simp: Requester_init_def update_conv')

section \<open>The resource operations\<close>

text \<open>
  C4. The claim: \<open>update_gist\<close> with a content that is not a string raises
  \<open>InvalidArg\<close> and makes no network call. With such a content the method first fetches
  the gist; when the gist lacks the file it returns the message and raises nothing, and
  when the gist holds the file it raises \<open>InvalidArg\<close> after the fetch.
\<close>

theorem update_gist_fetches_before_checking_content:
  "update_gist (demo_client 2) gist_with_b_txt no_files NotStrOrList ''abc'' ''a.txt'' [] [] =
     (Inr [(''message'', PyStr (file_not_found_message ''a.txt''))],
      [Attempt (build_request (demo_client 2) ''GET'' ''/abc'' None None), Sleep (1 / 2)])
   \<and> update_gist (demo_client 2) gist_with_b_txt no_files NotStrOrList ''abc'' ''b.txt'' [] [] =
     (Inl (InvalidArg ''content should be str or a file path''),
      [Attempt (build_request (demo_client 2) ''GET'' ''/abc'' None None), Sleep (1 / 2)])"
  by (simp add: update_gist_def get_gist_def async_request_def request_loop.simps
      demo_client_def gist_with_b_txt_def attempts_def build_request_def merge_status_def)

lemma check_pagination_rejects:
  "\<not> isinstance_int per_page \<or> int_value per_page > 100 \<or> \<not> isinstance_int page \<Longrightarrow>
     \<exists>m. check_pagination per_page page = Some (InvalidArg m)"
  by (auto simp: check_pagination_def)

text \<open>
  C6. When \<open>per_page\<close> is not an integer or exceeds 100, or \<open>page\<close> is not an integer,
  each of \<open>list_gists\<close>, \<open>public_gists\<close>, \<open>starred_gists\<close>, \<open>gist_commits\<close> and
  \<open>gist_forks\<close> raises \<open>InvalidArg\<close> and leaves the trace as it was: no network call.
\<close>

theorem invalid_pagination_raises_before_any_request:
  assumes "\<not> isinstance_int per_page \<or> int_value per_page > 100 \<or> \<not> isinstance_int page"
  shows "is_invalid_arg (fst (list_gists c tr per_page page since w)) \<and>
         snd (list_gists c tr per_page page since w) = w \<and>
         is_invalid_arg (fst (public_gists c tr per_page page since w)) \<and>
         snd (public_gists c tr per_page page since w) = w \<and>
         is_invalid_arg (fst (starred_gists c tr per_page page since w)) \<and>
         snd (starred_gists c tr per_page page since w) = w \<and>
         is_invalid_arg (fst (gist_commits c tr gist_id per_page page w)) \<and>
         snd (gist_commits c tr gist_id per_page page w) = w \<and>
         is_invalid_arg (fst (gist_forks c tr gist_id per_page page w)) \<and>
         snd (gist_forks c tr gist_id per_page page w) = w"
proof -
  from check_pagination_rejects[OF assms] obtain m where
    "check_pagination per_page page = Some (InvalidArg m)" by blast
  then show ?thesis
    by (simp add: list_gists_def public_gists_def starred_gists_def gist_commits_def
        gist_forks_def)
qed

text \<open>
  C6 at \<open>per_page = 101\<close>.
\<close>

theorem invalid_pagination_raises_before_any_request_witness:
  "int_value (PyInt 101) > 100 \<and>
   list_gists (demo_client 2) no_content_204 (PyInt 101) (PyInt 1) (PyStr []) [] =
     (Inl (InvalidArg ''per_page should be an integer and less than 100''), []) \<and>
   is_invalid_arg (fst (gist_forks (demo_client 2) no_content_204 ''abc'' (PyInt 101) (PyInt 1) []))
   \<and> snd (gist_forks (demo_client 2) no_content_204 ''abc'' (PyInt 101) (PyInt 1) []) = []"
proof -
  have h: "\<not> isinstance_int (PyInt 101) \<or> int_value (PyInt 101) > 100
           \<or> \<not> isinstance_int (PyInt 1)"
    by simp
  have "list_gists (demo_client 2) no_content_204 (PyInt 101) (PyInt 1) (PyStr []) [] =
     (Inl (InvalidArg ''per_page should be an integer and less than 100''), [])"
    by (simp add: list_gists_def check_pagination_def)
  with invalid_pagination_raises_before_any_request
         [OF h, of "demo_client 2" no_content_204 "PyStr []" "[]" "''abc''"]
  show ?thesis by simp
qed

lemma read_files_none_exist:
  "\<forall>p \<in> set paths. fs p = None \<Longrightarrow> read_files fs paths file_data = file_data"
  by (induction paths arbitrary: file_data) auto

text \<open>
  C8. When \<open>content\<close> is a list of paths none of which is a file on disk,
  \<open>create_gist\<close> raises \<open>FileNotFoundError\<close> and makes no network call.
\<close>

theorem create_gist_no_listed_file_exists:
  assumes "\<forall>p \<in> set paths. fs p = None"
  shows "create_gist c tr fs (Paths paths) file_name description public w =
           (Inl (FileNotFoundError ''Unable to locate the file(s)''), w)"
  using read_files_none_exist[OF assms, of "[]"]
  by (simp add: create_gist_def files_from_disk_def)

text \<open>
  C8 on two missing paths.
\<close>

theorem create_gist_no_listed_file_exists_witness:
  "no_files ''a.txt'' = None \<and> no_files ''dir/b.txt'' = None \<and>
   create_gist (demo_client 2) no_content_204 no_files (Paths [''a.txt'', ''dir/b.txt''])
       None [] False [] =
     (Inl (FileNotFoundError ''Unable to locate the file(s)''), [])"
proof -
  have h: "\<forall>p \<in> set [''a.txt'', ''dir/b.txt'']. no_files p = None"
    by (simp add: no_files_def)
  from h create_gist_no_listed_file_exists[OF h] show ?thesis by simp
qed

lemma substring_prefix: "substring xs (xs @ bs)"
proof (cases "xs @ bs")
  case Nil
  then show ?thesis by simp
next
  case (Cons y ys)
  have "take (length xs) (xs @ bs) = xs" by simp
  with Cons show ?thesis by simp
qed

lemma substring_infix: "substring xs (as @ xs @ bs)"
  by (induction as) (simp_all add: substring_prefix)

lemma file_not_found_message_names_file:
  "substring name (file_not_found_message name)"
  unfolding file_not_found_message_def
  using substring_infix[of name "''File '' @ [CHR 0x27]" "[CHR 0x27] @ '' not found in the Gist.''"]
  by simp

text \<open>
  C9, as amended. When the fetch returns a mapping, \<open>update_gist\<close> returns a mapping and
  raises nothing in two cases: the mapping has no \<open>files\<close> key, and the message is
  \<open>files not found\<close>; its \<open>files\<close> mapping lacks the file name, and the message names
  that file. In both the trace is that of the fetch, whose new requests are all \<open>GET\<close>:
  no \<open>PATCH\<close> is issued.
\<close>

theorem update_gist_soft_failure:
  assumes "get_gist c tr gist_id w = (Inr gist, w1)"
  shows "(map_of gist ''files'' = None \<longrightarrow>
            update_gist c tr fs content_arg gist_id name description w =
              (Inr [(''message'', PyStr ''files not found'')], w1)) \<and>
         (\<forall>files. map_of gist ''files'' = Some (PyDict files) \<and> map_of files name = None \<longrightarrow>
            update_gist c tr fs content_arg gist_id name description w =
              (Inr [(''message'', PyStr (file_not_found_message name))], w1) \<and>
            substring name (file_not_found_message name)) \<and>
         (\<forall>rq. Attempt rq \<in> set w1 \<and> Attempt rq \<notin> set w \<longrightarrow> rq_method rq = ''GET'')"
proof -
  have a: "map_of gist ''files'' = None \<longrightarrow>
            update_gist c tr fs content_arg gist_id name description w =
              (Inr [(''message'', PyStr ''files not found'')], w1)"
    using assms by (simp add: update_gist_def)
  have b: "\<forall>files. map_of gist ''files'' = Some (PyDict files) \<and> map_of files name = None \<longrightarrow>
            update_gist c tr fs content_arg gist_id name description w =
              (Inr [(''message'', PyStr (file_not_found_message name))], w1) \<and>
            substring name (file_not_found_message name)"
    using assms by (simp add: update_gist_def file_not_found_message_names_file)
  from assms obtain ev where ev: "w1 = w @ ev"
    "set ev \<subseteq> {Attempt (build_request c ''GET'' (''/'' @ gist_id) None None), Sleep (sleep_time c)}"
    unfolding get_gist_def using async_request_events by blast
  have c: "\<forall>rq. Attempt rq \<in> set w1 \<and> Attempt rq \<notin> set w \<longrightarrow> rq_method rq = ''GET''"
  proof (intro allI impI)
    fix rq assume "Attempt rq \<in> set w1 \<and> Attempt rq \<notin> set w"
    with ev have "Attempt rq \<in> set ev" by auto
    with ev(2) have "rq = build_request c ''GET'' (''/'' @ gist_id) None None" by auto
    then show "rq_method rq = ''GET''" by (simp add: build_request_def)
  qed
  from a b c show ?thesis by blast
qed

text \<open>
  The amended C9 on a gist that holds \<open>b.txt\<close> only.
\<close>

theorem update_gist_soft_failure_witness:
  "get_gist (demo_client 2) gist_with_b_txt ''abc'' [] =
     (Inr [(''id'', PyStr ''abc''),
           (''files'', PyDict [(''b.txt'', PyDict [(''content'', PyStr ''old'')])]),
           (''code'', PyInt 200)],
      [Attempt (build_request (demo_client 2) ''GET'' ''/abc'' None None), Sleep (1 / 2)])
   \<and> update_gist (demo_client 2) gist_with_b_txt no_files (Text ''new text'') ''abc''
        ''a.txt'' [] [] =
     (Inr [(''message'', PyStr (file_not_found_message ''a.txt''))],
      [Attempt (build_request (demo_client 2) ''GET'' ''/abc'' None None), Sleep (1 / 2)])
   \<and> substring ''a.txt'' (file_not_found_message ''a.txt'')"
proof -
  let ?gist = "[(''id'', PyStr ''abc''),
           (''files'', PyDict [(''b.txt'', PyDict [(''content'', PyStr ''old'')])]),
           (''code'', PyInt 200)]"
  have fetch: "get_gist (demo_client 2) gist_with_b_txt ''abc'' [] =
     (Inr ?gist,
      [Attempt (build_request (demo_client 2) ''GET'' ''/abc'' None None), Sleep (1 / 2)])"
    by (simp add: get_gist_def async_request_def request_loop.simps
      demo_client_def gist_with_b_txt_def attempts_def build_request_def merge_status_def)
  have files: "map_of ?gist ''files'' =
      Some (PyDict [(''b.txt'', PyDict [(''content'', PyStr ''old'')])]) \<and>
      map_of [(''b.txt'', PyDict [(''content'', PyStr ''old'')])] ''a.txt'' = None"
    by simp
  from update_gist_soft_failure[OF fetch, of no_files "Text ''new text''" "''a.txt''" "[]"] files
  have "update_gist (demo_client 2) gist_with_b_txt no_files (Text ''new text'') ''abc''
        ''a.txt'' [] [] =
     (Inr [(''message'', PyStr (file_not_found_message ''a.txt''))],
      [Attempt (build_request (demo_client 2) ''GET'' ''/abc'' None None), Sleep (1 / 2)])
     \<and> substring ''a.txt'' (file_not_found_message ''a.txt'')"
    by blast
  with fetch show ?thesis by blast
qed

text \<open>
  C9 as stated fails: for a fetched mapping without \<open>files\<close> the message is
  \<open>files not found\<close>, which does not mention the file \<open>a.txt\<close> asked for.
\<close>

theorem update_gist_files_message_counterexample:
  "update_gist (demo_client 2) gist_not_found_404 no_files (Text ''new text'') ''abc''
       ''a.txt'' [] [] =
     (Inr [(''message'', PyStr ''files not found'')],
      [Attempt (build_request (demo_client 2) ''GET'' ''/abc'' None None), Sleep (1 / 2)])
   \<and> \<not> substring ''a.txt'' ''files not found''"
  by (simp add: update_gist_def get_gist_def async_request_def request_loop.simps
      demo_client_def gist_not_found_404_def attempts_def build_request_def merge_status_def)

text \<open>
  C10. Two calls of \<open>public_gists\<close>, and of \<open>starred_gists\<close>, with valid arguments that
  differ in \<open>per_page\<close>, \<open>page\<close> or \<open>since\<close> have the same result and the same trace, so
  the same request descriptors: the call handed to the executor has no query parameters.
\<close>

theorem pagination_arguments_never_sent:
  assumes "isinstance_int per_page \<and> int_value per_page \<le> 100 \<and> isinstance_int page"
    and "isinstance_int per_page' \<and> int_value per_page' \<le> 100 \<and> isinstance_int page'"
  shows "public_gists c tr per_page page since w = public_gists c tr per_page' page' since' w \<and>
         starred_gists c tr per_page page since w = starred_gists c tr per_page' page' since' w \<and>
         public_gists c tr per_page page since w =
           async_request c tr ''GET'' ''/public'' None None w \<and>
         starred_gists c tr per_page page since w =
           async_request c tr ''GET'' ''/starred'' None None w"
  using assms by (simp add: public_gists_def starred_gists_def check_pagination_def)

text \<open>
  C10 on per_page 30, page 1 and an empty \<open>since\<close> against 5, 7 and a date.
\<close>

theorem pagination_arguments_never_sent_witness:
  "(isinstance_int (PyInt 30) \<and> int_value (PyInt 30) \<le> 100 \<and> isinstance_int (PyInt 1)) \<and>
   (isinstance_int (PyInt 5) \<and> int_value (PyInt 5) \<le> 100 \<and> isinstance_int (PyInt 7)) \<and>
   public_gists (demo_client 2) no_content_204 (PyInt 30) (PyInt 1) (PyStr []) [] =
     public_gists (demo_client 2) no_content_204 (PyInt 5) (PyInt 7) (PyStr ''2024-01-01'') [] \<and>
   public_gists (demo_client 2) no_content_204 (PyInt 30) (PyInt 1) (PyStr []) [] =
     (Inr [(''code'', PyInt 204)],
      [Attempt (build_request (demo_client 2) ''GET'' ''/public'' None None), Sleep (1 / 2)])"
proof -
  have h1: "isinstance_int (PyInt 30) \<and> int_value (PyInt 30) \<le> 100 \<and> isinstance_int (PyInt 1)"
    and h2: "isinstance_int (PyInt 5) \<and> int_value (PyInt 5) \<le> 100 \<and> isinstance_int (PyInt 7)"
    by simp_all
  have run: "async_request (demo_client 2) no_content_204 ''GET'' ''/public'' None None [] =
     (Inr [(''code'', PyInt 204)],
      [Attempt (build_request (demo_client 2) ''GET'' ''/public'' None None), Sleep (1 / 2)])"
    by (simp add: async_request_def request_loop.simps demo_client_def no_content_204_def
        attempts_def build_request_def merge_status_def)
  note sent = pagination_arguments_never_sent[OF h1 h2, of "demo_client 2" no_content_204
      "PyStr []" "[]" "PyStr ''2024-01-01''"]
  from sent have same:
    "public_gists (demo_client 2) no_content_204 (PyInt 30) (PyInt 1) (PyStr []) [] =
     public_gists (demo_client 2) no_content_204 (PyInt 5) (PyInt 7) (PyStr ''2024-01-01'') []"
    by (rule conjunct1)
  from sent have
    "public_gists (demo_client 2) no_content_204 (PyInt 30) (PyInt 1) (PyStr []) [] =
     async_request (demo_client 2) no_content_204 ''GET'' ''/public'' None None []"
    by blast
  from this run have
    "public_gists (demo_client 2) no_content_204 (PyInt 30) (PyInt 1) (PyStr []) [] =
     (Inr [(''code'', PyInt 204)],
      [Attempt (build_request (demo_client 2) ''GET'' ''/public'' None None), Sleep (1 / 2)])"
    by (rule trans)
  with h1 h2 same show ?thesis by blast
qed

end
